theory Spec2Isabelle
  imports Complex_Main
begin

section \<open>Numbers of the contact stabilizer\<close>

text \<open>
  The stabilizer is a template over a floating point type \<open>T\<close>. Its values are modelled
  as exact real numbers together with the one value that exact arithmetic itself forces on
  the code: \<open>NaN\<close>, the result of \<open>0 / 0\<close>. Rounding and overflow are not modelled.
  Every operation with a \<open>NaN\<close> operand gives \<open>NaN\<close>, and every comparison with a
  \<open>NaN\<close> operand is false, as in IEEE 754.
\<close>

datatype flt = Fin real | NaN

instantiation flt :: "{zero, plus, minus, times, inverse, abs, ord}"
begin

definition zero_flt :: flt where
  "zero_flt = Fin 0"

definition plus_flt :: "flt \<Rightarrow> flt \<Rightarrow> flt" where
  "plus_flt a b = (case a of Fin p \<Rightarrow> (case b of Fin q \<Rightarrow> Fin (p + q) | NaN \<Rightarrow> NaN) | NaN \<Rightarrow> NaN)"

definition minus_flt :: "flt \<Rightarrow> flt \<Rightarrow> flt" where
  "minus_flt a b = (case a of Fin p \<Rightarrow> (case b of Fin q \<Rightarrow> Fin (p - q) | NaN \<Rightarrow> NaN) | NaN \<Rightarrow> NaN)"

definition times_flt :: "flt \<Rightarrow> flt \<Rightarrow> flt" where
  "times_flt a b = (case a of Fin p \<Rightarrow> (case b of Fin q \<Rightarrow> Fin (p * q) | NaN \<Rightarrow> NaN) | NaN \<Rightarrow> NaN)"

definition divide_flt :: "flt \<Rightarrow> flt \<Rightarrow> flt" where
  \<comment> \<open>A zero divisor leaves the finite numbers: \<open>0 / 0\<close> is \<open>NaN\<close>. A nonzero dividend
      over zero is an infinity in IEEE 754, which this type does not have; it is mapped to
      \<open>NaN\<close> as well. The one division of the stabilizer divides a vector by its own
      length, so its dividend is zero whenever its divisor is (lemma \<open>hypot_zero\<close>).\<close>
  "divide_flt a b =
     (case a of
        Fin p \<Rightarrow> (case b of Fin q \<Rightarrow> (if q = 0 then NaN else Fin (p / q)) | NaN \<Rightarrow> NaN)
      | NaN \<Rightarrow> NaN)"

definition inverse_flt :: "flt \<Rightarrow> flt" where
  "inverse_flt a = (case a of Fin q \<Rightarrow> (if q = 0 then NaN else Fin (1 / q)) | NaN \<Rightarrow> NaN)"

definition abs_flt :: "flt \<Rightarrow> flt" where
  "abs_flt a = (case a of Fin p \<Rightarrow> Fin \<bar>p\<bar> | NaN \<Rightarrow> NaN)"

definition less_eq_flt :: "flt \<Rightarrow> flt \<Rightarrow> bool" where
  "less_eq_flt a b = (case a of Fin p \<Rightarrow> (case b of Fin q \<Rightarrow> p \<le> q | NaN \<Rightarrow> False) | NaN \<Rightarrow> False)"

definition less_flt :: "flt \<Rightarrow> flt \<Rightarrow> bool" where
  "less_flt a b = (case a of Fin p \<Rightarrow> (case b of Fin q \<Rightarrow> p < q | NaN \<Rightarrow> False) | NaN \<Rightarrow> False)"

instance ..

end

definition hypot :: "flt \<Rightarrow> flt \<Rightarrow> flt" where
  \<comment> \<open>\<open>std::hypot\<close>: the Euclidean length of \<open>(a, b)\<close>.\<close>
  "hypot a b = (case a of Fin p \<Rightarrow> (case b of Fin q \<Rightarrow> Fin (sqrt (p\<^sup>2 + q\<^sup>2)) | NaN \<Rightarrow> NaN) | NaN \<Rightarrow> NaN)"

text \<open>\<open>Vector2<T>\<close> with the Eigen operations the stabilizer uses.\<close>

datatype Vector2 = Vector2 (x_of: flt) (y_of: flt)

instantiation Vector2 :: "{plus, minus}"
begin

definition plus_Vector2 :: "Vector2 \<Rightarrow> Vector2 \<Rightarrow> Vector2" where
  "plus_Vector2 u v = Vector2 (x_of u + x_of v) (y_of u + y_of v)"

definition minus_Vector2 :: "Vector2 \<Rightarrow> Vector2 \<Rightarrow> Vector2" where
  "minus_Vector2 u v = Vector2 (x_of u - x_of v) (y_of u - y_of v)"

instance ..

end

definition scale :: "flt \<Rightarrow> Vector2 \<Rightarrow> Vector2" where
  \<comment> \<open>scalar \<open>*\<close> vector\<close>
  "scale a v = Vector2 (a * x_of v) (a * y_of v)"

definition vdiv :: "Vector2 \<Rightarrow> flt \<Rightarrow> Vector2" where
  \<comment> \<open>vector \<open>/\<close> scalar\<close>
  "vdiv v a = Vector2 (x_of v / a) (y_of v / a)"

definition cwiseAbs :: "Vector2 \<Rightarrow> Vector2" where
  "cwiseAbs v = Vector2 \<bar>x_of v\<bar> \<bar>y_of v\<bar>"

definition all_le :: "Vector2 \<Rightarrow> flt \<Rightarrow> bool" where
  \<comment> \<open>\<open>(v.array() <= a).all()\<close>\<close>
  "all_le v a \<longleftrightarrow> x_of v \<le> a \<and> y_of v \<le> a"

section \<open>The contact stabilizer (\<open>contacts/stability/stabilizer.hpp\<close>)\<close>

text \<open>
  \<open>Contact<T>\<close> is declared in \<open>contacts/contact.hpp\<close>, and \<open>Config<T>\<close> in
  \<open>contacts/stability/config.hpp\<close>; the records carry the fields the stabilizer reads
  and writes. The field \<open>size\<close> of a contact is named \<open>size_c\<close> here.
\<close>

record Contact =
  index :: "nat option"
  mean :: Vector2
  size_c :: Vector2

record Config =
  temporal_window :: nat
  check_temporal_stability :: bool
  size_difference_threshold :: "flt option"
  movement_limits :: "Vector2 option"

text \<open>
  \<open>m_frames\<close> is a deque of frames: its front is the head of the list, its back the last
  element.
\<close>

record Stabilizer =
  m_config :: Config
  m_frames :: "Contact list list"

definition find_in_frame :: "nat \<Rightarrow> Contact list \<Rightarrow> Contact option" where
  \<comment> \<open>Modelled from the spec: \<open>Contact<T>::find_in_frame\<close> (\<open>contacts/contact.hpp\<close>),
      which locates the contact with the same index in a frame.\<close>
  "find_in_frame i frame = find (\<lambda>c. index c = Some i) frame"

definition Stabilizer_new :: "Config \<Rightarrow> Stabilizer" where
  \<comment> \<open>The constructor: \<open>max(temporal_window, 2)\<close> empty frames.\<close>
  "Stabilizer_new config =
     \<lparr>m_config = config, m_frames = replicate (max (temporal_window config) 2) []\<rparr>"

definition reset :: "Stabilizer \<Rightarrow> Stabilizer" where
  "reset s = s\<lparr>m_frames := map (\<lambda>frame. []) (m_frames s)\<rparr>"

definition stabilize_size :: "Config \<Rightarrow> Contact \<Rightarrow> Contact \<Rightarrow> Contact" where
  "stabilize_size cfg current lst =
     (case size_difference_threshold cfg of
        None \<Rightarrow> current
      | Some size_thresh \<Rightarrow>
          (let delta = cwiseAbs (size_c current - size_c lst)
           in if all_le delta size_thresh then current
              else current\<lparr>size_c := size_c lst\<rparr>))"

definition stabilize_movement :: "Config \<Rightarrow> Contact \<Rightarrow> Contact \<Rightarrow> Contact" where
  "stabilize_movement cfg current lst =
     (case movement_limits cfg of
        None \<Rightarrow> current
      | Some limit \<Rightarrow>
          (let delta = mean current - mean lst;
               distance = hypot (x_of delta) (y_of delta)
           in if distance \<ge> x_of limit \<and> distance \<le> y_of limit
              then current\<lparr>mean := mean current - scale (x_of limit) (vdiv delta distance)\<rparr>
              else current\<lparr>mean := mean lst\<rparr>))"

definition stabilize_contact :: "Config \<Rightarrow> Contact \<Rightarrow> Contact list \<Rightarrow> Contact" where
  "stabilize_contact cfg contact frame =
     (case index contact of
        None \<Rightarrow> contact
      | Some i \<Rightarrow>
          if temporal_window cfg < 2 then contact
          else (case find_in_frame i frame of
                  None \<Rightarrow> contact
                | Some lst \<Rightarrow>
                    (let c1 = (if size_difference_threshold cfg \<noteq> None
                               then stabilize_size cfg contact lst else contact);
                         c2 = (if movement_limits cfg \<noteq> None
                               then stabilize_movement cfg c1 lst else c1)
                     in c2)))"

fun check_frames :: "nat \<Rightarrow> Contact list list \<Rightarrow> bool" where
  \<comment> \<open>the loop of \<open>check_temporal\<close> over the frames it is given, in the order given\<close>
  "check_frames i [] = True"
| "check_frames i (frame # rest) =
     (if find_in_frame i frame = None then False else check_frames i rest)"

definition check_temporal :: "Contact list list \<Rightarrow> Contact \<Rightarrow> bool" where
  \<comment> \<open>\<open>frames\<close> is \<open>m_frames\<close> at the time of the call; the loop runs from the back.\<close>
  "check_temporal frames contact =
     (case index contact of
        None \<Rightarrow> True
      | Some i \<Rightarrow> check_frames i (rev frames))"

definition stabilize :: "Contact list \<Rightarrow> Stabilizer \<Rightarrow> (Contact list \<times> Stabilizer) option" where
  \<comment> \<open>Returns the frame as the caller sees it afterwards, and the new state. \<open>back()\<close>,
      \<open>front()\<close> and \<open>pop_front()\<close> of an empty deque are undefined behaviour: \<open>None\<close>.
      The constructor never builds an empty deque (lemma \<open>Stabilizer_new_frames\<close>).\<close>
  "stabilize frame s =
     (case m_frames s of
        [] \<Rightarrow> None
      | front # popped \<Rightarrow>
          (let cfg = m_config s;
               frame1 = map (\<lambda>contact. stabilize_contact cfg contact (last (m_frames s))) frame;
               nf = frame1;
               frame2 = (if check_temporal_stability cfg \<and> temporal_window cfg \<ge> 2
                         then filter (check_temporal popped) nf
                         else frame1)
           in Some (frame2, s\<lparr>m_frames := popped @ [nf]\<rparr>)))"

text \<open>
  The states of a stabilizer: the constructor builds one, and \<open>stabilize\<close> and \<open>reset\<close>
  lead from one to the next.
\<close>

inductive reachable :: "Stabilizer \<Rightarrow> bool" where
  constructed: "reachable (Stabilizer_new config)"
| stabilized: "reachable s \<Longrightarrow> stabilize frame s = Some (out, s') \<Longrightarrow> reachable s'"
| cleared: "reachable s \<Longrightarrow> reachable (reset s)"

section \<open>The stylus device (\<open>apps/daemon/stylus.hpp\<close>)\<close>

text \<open>
  The events written to the uinput device: the type, the code and the value of each
  \<open>emit\<close> call. \<open>UinputDevice\<close> itself (\<open>uinput-device.hpp\<close>) only passes them on.
\<close>

datatype ev_type = EV_SYN | EV_KEY | EV_ABS

datatype ev_code =
  SYN_REPORT | BTN_TOUCH | BTN_STYLUS | BTN_TOOL_PEN | BTN_TOOL_RUBBER
  | ABS_X | ABS_Y | ABS_PRESSURE | ABS_MISC | ABS_TILT_X | ABS_TILT_Y

type_synonym event = "ev_type \<times> ev_code \<times> int"

text \<open>
  \<open>ipts::StylusData\<close> (\<open>ipts/data.hpp\<close>). Its fields \<open>x\<close> and \<open>y\<close> are named
  \<open>data_x\<close> and \<open>data_y\<close> here. The \<open>f64\<close> fields are modelled as exact reals.
\<close>

record StylusData =
  proximity :: bool
  contact :: bool
  button :: bool
  rubber :: bool
  timestamp :: int
  data_x :: real
  data_y :: real
  pressure :: real
  altitude :: real
  azimuth :: real

text \<open>
  \<open>std::sin\<close>, \<open>std::cos\<close> and \<open>std::atan2\<close> are the C library's functions on
  doubles. They are parameters of the model, which assumes nothing about their values.
\<close>

record libm =
  sin_f :: "real \<Rightarrow> real"
  cos_f :: "real \<Rightarrow> real"
  atan2_f :: "real \<Rightarrow> real \<Rightarrow> real"

text \<open>
  The predictor (\<open>prediction/single-pointer-predictor.hpp\<close>) is used through its
  interface only: \<open>reset\<close>, \<open>update\<close>, \<open>predict\<close> (which reports success and may change
  the predictor), \<open>position\<close> and \<open>pressure\<close>. \<open>'p\<close> is the type of its state.
\<close>

record 'p Predictor =
  pred_reset :: "'p \<Rightarrow> 'p"
  pred_update :: "real \<times> real \<Rightarrow> real \<Rightarrow> 'p \<Rightarrow> 'p"
  pred_predict :: "nat \<Rightarrow> 'p \<Rightarrow> bool \<times> 'p"
  pred_position :: "'p \<Rightarrow> real \<times> real"
  pred_pressure :: "'p \<Rightarrow> real"

record 'p StylusDevice =
  m_enabled :: bool
  m_active :: bool
  m_last :: StylusData
  m_predictor :: 'p
  m_prediction_target :: nat

definition MAX_X :: nat where "MAX_X = 9600"

definition MAX_Y :: nat where "MAX_Y = 7200"

definition MAX_P :: nat where "MAX_P = 4096"

definition c_round :: "real \<Rightarrow> int" where
  \<comment> \<open>\<open>std::round\<close>: to the nearest integer, halfway cases away from zero.\<close>
  "c_round v = (if 0 \<le> v then \<lfloor>v + 1/2\<rfloor> else \<lceil>v - 1/2\<rceil>)"

definition to_i32 :: "int \<Rightarrow> int" where
  \<comment> \<open>Modelled from the spec: \<open>casts::to<i32>\<close> (\<open>common/casts.hpp\<close>). The spec has
      the conversion to device units as infallible arithmetic that rounds to the nearest
      integer: the cast keeps the rounded value.\<close>
  "to_i32 v = v"

definition calculate_tilt :: "libm \<Rightarrow> real \<Rightarrow> real \<Rightarrow> int \<times> int" where
  "calculate_tilt M alt azm =
     (if alt \<le> 0 then (0, 0)
      else
        (let sin_alt = sin_f M alt;
             sin_azm = sin_f M azm;
             cos_alt = cos_f M alt;
             cos_azm = cos_f M azm;
             atan_x = atan2_f M cos_alt (sin_alt * cos_azm);
             atan_y = atan2_f M cos_alt (sin_alt * sin_azm);
             tx = 9000 - to_i32 (c_round (atan_x * 4500 / (pi / 4)));
             ty = to_i32 (c_round (atan_y * 4500 / (pi / 4))) - 9000
         in (tx, ty)))"

definition lift :: "event list" where
  "lift = [(EV_KEY, BTN_TOUCH, 0), (EV_KEY, BTN_TOOL_PEN, 0),
           (EV_KEY, BTN_TOOL_RUBBER, 0), (EV_KEY, BTN_STYLUS, 0)]"

definition sync :: "event list" where
  "sync = [(EV_SYN, SYN_REPORT, 0)]"

definition update :: "libm \<Rightarrow> 'p Predictor \<Rightarrow> StylusData \<Rightarrow> 'p StylusDevice \<Rightarrow> event list \<times> 'p StylusDevice" where
  \<comment> \<open>Returns the events emitted by the call, in order, and the new state.\<close>
  "update M P data s =
     (let pr0 = (if \<not> contact (m_last s) \<and> contact data
                 then pred_reset P (m_predictor s) else m_predictor s);
          act0 = proximity data;
          act = (if rubber (m_last s) \<noteq> rubber data then False else act0)
      in if act then
           (let (cx, cy, cp, pr2) =
                  (if m_prediction_target s > 0 \<and> contact data then
                     (let pr1 = pred_update P (data_x data, data_y data) (pressure data) pr0;
                          (ok, pr2) = pred_predict P (m_prediction_target s) pr1
                      in if ok
                         then (let pos = pred_position P pr2
                               in (fst pos, snd pos, pred_pressure P pr2, pr2))
                         else (data_x data, data_y data, pressure data, pr2))
                   else (data_x data, data_y data, pressure data, pr0));
                tilt = calculate_tilt M (altitude data) (azimuth data);
                x = to_i32 (c_round (cx * real MAX_X));
                y = to_i32 (c_round (cy * real MAX_Y));
                p = to_i32 (c_round (cp * real MAX_P))
            in ([(EV_KEY, BTN_TOUCH, if contact data then 1 else 0),
                 (EV_KEY, BTN_TOOL_PEN, if \<not> rubber data then 1 else 0),
                 (EV_KEY, BTN_TOOL_RUBBER, if rubber data then 1 else 0),
                 (EV_KEY, BTN_STYLUS, if button data then 1 else 0),
                 (EV_ABS, ABS_X, x),
                 (EV_ABS, ABS_Y, y),
                 (EV_ABS, ABS_PRESSURE, p),
                 (EV_ABS, ABS_MISC, timestamp data),
                 (EV_ABS, ABS_TILT_X, fst tilt),
                 (EV_ABS, ABS_TILT_Y, snd tilt)] @ sync,
                s\<lparr>m_active := act, m_last := data, m_predictor := pr2\<rparr>))
         else (lift @ sync, s\<lparr>m_active := act, m_last := data, m_predictor := pr0\<rparr>))"

definition disable :: "'p StylusDevice \<Rightarrow> event list \<times> 'p StylusDevice" where
  "disable s = (lift @ sync, s\<lparr>m_enabled := False, m_active := False\<rparr>)"

definition enable :: "'p StylusDevice \<Rightarrow> 'p StylusDevice" where
  "enable s = s\<lparr>m_enabled := True\<rparr>"

definition enabled :: "'p StylusDevice \<Rightarrow> bool" where
  "enabled s = m_enabled s"

definition active :: "'p StylusDevice \<Rightarrow> bool" where
  "active s = m_active s"

section \<open>Example configurations, frames and samples\<close>

text \<open>The concrete inputs at which the theorems below are evaluated.\<close>

definition cfg_w1 :: Config where
  "cfg_w1 = \<lparr>temporal_window = 1, check_temporal_stability = False,
             size_difference_threshold = Some (Fin 1),
             movement_limits = Some (Vector2 (Fin 2) (Fin 3))\<rparr>"

definition cfg_w2 :: Config where
  "cfg_w2 = \<lparr>temporal_window = 2, check_temporal_stability = False,
             size_difference_threshold = Some (Fin 1),
             movement_limits = Some (Vector2 (Fin (1/2)) (Fin 3))\<rparr>"

definition cfg_t2 :: Config where
  "cfg_t2 = \<lparr>temporal_window = 2, check_temporal_stability = True,
             size_difference_threshold = None, movement_limits = None\<rparr>"

definition cfg_m0 :: Config where
  "cfg_m0 = \<lparr>temporal_window = 2, check_temporal_stability = False,
             size_difference_threshold = None,
             movement_limits = Some (Vector2 (Fin 0) (Fin 1))\<rparr>"

definition c_prev :: Contact where
  "c_prev = \<lparr>index = Some 0, mean = Vector2 (Fin 0) (Fin 0), size_c = Vector2 (Fin 1) (Fin 1)\<rparr>"

definition c_new :: Contact where
  "c_new = \<lparr>index = Some 0, mean = Vector2 (Fin 1) (Fin 0), size_c = Vector2 (Fin 5) (Fin 5)\<rparr>"

definition c_other :: Contact where
  "c_other = \<lparr>index = Some 1, mean = Vector2 (Fin 1) (Fin 1), size_c = Vector2 (Fin 1) (Fin 1)\<rparr>"

definition c_untracked :: Contact where
  "c_untracked = \<lparr>index = None, mean = Vector2 (Fin 0) (Fin 1), size_c = Vector2 (Fin 1) (Fin 1)\<rparr>"

definition c_still :: Contact where
  "c_still = \<lparr>index = Some 0, mean = Vector2 (Fin (1/2)) (Fin (1/2)), size_c = Vector2 (Fin 1) (Fin 1)\<rparr>"

definition c_moved :: Contact where
  "c_moved = \<lparr>index = Some 0, mean = Vector2 (Fin (3/5)) (Fin (1/2)), size_c = Vector2 (Fin 1) (Fin 1)\<rparr>"

definition c_far :: Contact where
  "c_far = \<lparr>index = Some 0, mean = Vector2 (Fin 5) (Fin 0), size_c = Vector2 (Fin (3/2)) (Fin 1)\<rparr>"

definition st_w1 :: Stabilizer where
  "st_w1 = \<lparr>m_config = cfg_w1, m_frames = [[], [c_prev]]\<rparr>"

definition st_w2 :: Stabilizer where
  "st_w2 = \<lparr>m_config = cfg_w2, m_frames = [[], [c_prev]]\<rparr>"

definition st_t2 :: Stabilizer where
  "st_t2 = \<lparr>m_config = cfg_t2, m_frames = [[], [c_prev]]\<rparr>"

definition st_m0 :: Stabilizer where
  "st_m0 = \<lparr>m_config = cfg_m0, m_frames = [[], [c_still]]\<rparr>"

text \<open>
  The exact functions are one instance of the C library's, and \<open>fake_predictor\<close> is a
  deterministic predictor that needs two samples of history and then extrapolates the
  last step.
\<close>

definition atan2_exact :: "real \<Rightarrow> real \<Rightarrow> real" where
  "atan2_exact v u =
     (if 0 < u then arctan (v / u)
      else if u < 0 then (if 0 \<le> v then arctan (v / u) + pi else arctan (v / u) - pi)
      else if 0 < v then pi / 2 else if v < 0 then - pi / 2 else 0)"

definition exact_libm :: libm where
  "exact_libm = \<lparr>sin_f = sin, cos_f = cos, atan2_f = atan2_exact\<rparr>"

definition fake_predictor :: "(real \<times> real \<times> real) list Predictor" where
  "fake_predictor =
     \<lparr>pred_reset = (\<lambda>h. []),
      pred_update = (\<lambda>pos p h. (fst pos, snd pos, p) # h),
      pred_predict = (\<lambda>target h. (2 \<le> length h, h)),
      pred_position = (\<lambda>h. case h of
           (x1, y1, p1) # (x0, y0, p0) # rest \<Rightarrow> (2 * x1 - x0, 2 * y1 - y0)
         | _ \<Rightarrow> (0, 0)),
      pred_pressure = (\<lambda>h. case h of (x1, y1, p1) # rest \<Rightarrow> p1 | [] \<Rightarrow> 0)\<rparr>"

definition pen_hover :: StylusData where
  "pen_hover = \<lparr>proximity = True, contact = False, button = False, rubber = False,
                timestamp = 1, data_x = 1/2, data_y = 1/2, pressure = 0,
                altitude = 0, azimuth = 0\<rparr>"

definition pen_down :: StylusData where
  "pen_down = \<lparr>proximity = True, contact = True, button = False, rubber = False,
               timestamp = 2, data_x = 1/2, data_y = 1/2, pressure = 1/4,
               altitude = 0, azimuth = 0\<rparr>"

definition pen_moved :: StylusData where
  "pen_moved = \<lparr>proximity = True, contact = True, button = False, rubber = False,
                timestamp = 3, data_x = 3/4, data_y = 1/2, pressure = 1/2,
                altitude = 0, azimuth = 0\<rparr>"

definition rubber_down :: StylusData where
  "rubber_down = \<lparr>proximity = True, contact = True, button = False, rubber = True,
                  timestamp = 4, data_x = 3/4, data_y = 1/2, pressure = 1/2,
                  altitude = 0, azimuth = 0\<rparr>"

definition pen_away_down :: StylusData where
  "pen_away_down = \<lparr>proximity = False, contact = True, button = False, rubber = False,
                    timestamp = 2, data_x = 1/2, data_y = 1/2, pressure = 1/4,
                    altitude = 0, azimuth = 0\<rparr>"

definition dev_hover :: "(real \<times> real \<times> real) list StylusDevice" where
  "dev_hover = \<lparr>m_enabled = True, m_active = True, m_last = pen_hover,
                m_predictor = [], m_prediction_target = 5\<rparr>"

definition dev_down :: "(real \<times> real \<times> real) list StylusDevice" where
  "dev_down = \<lparr>m_enabled = True, m_active = True, m_last = pen_down,
               m_predictor = [(1/2, 1/2, 1/4)], m_prediction_target = 5\<rparr>"

section \<open>Arithmetic of \<open>flt\<close>\<close>

lemma flt_plus [simp]:
  "Fin a + Fin b = Fin (a + b)" "NaN + u = NaN" "u + NaN = NaN"
  by (simp_all add: plus_flt_def split: flt.splits)

lemma flt_minus [simp]:
  "Fin a - Fin b = Fin (a - b)" "NaN - u = NaN" "u - NaN = NaN"
  by (simp_all add: minus_flt_def split: flt.splits)

lemma flt_times [simp]:
  "Fin a * Fin b = Fin (a * b)" "NaN * u = NaN" "u * NaN = NaN"
  by (simp_all add: times_flt_def split: flt.splits)

lemma flt_divide [simp]:
  "Fin a / Fin b = (if b = 0 then NaN else Fin (a / b))" "NaN / u = NaN" "u / NaN = NaN"
  by (simp_all add: divide_flt_def split: flt.splits)

lemma flt_abs [simp]:
  "\<bar>Fin a\<bar> = Fin \<bar>a\<bar>" "\<bar>NaN\<bar> = NaN"
  by (simp_all add: abs_flt_def)

lemma flt_le [simp]:
  "Fin a \<le> Fin b \<longleftrightarrow> a \<le> b" "\<not> NaN \<le> u" "\<not> u \<le> NaN"
  by (simp_all add: less_eq_flt_def split: flt.splits)

lemma flt_less [simp]:
  "Fin a < Fin b \<longleftrightarrow> a < b" "\<not> NaN < u" "\<not> u < NaN"
  by (simp_all add: less_flt_def split: flt.splits)

lemma flt_less_not_le: "(a::flt) < b \<Longrightarrow> \<not> b \<le> a"
  by (cases a; cases b) simp_all

lemma hypot_simps [simp]:
  "hypot (Fin a) (Fin b) = Fin (sqrt (a\<^sup>2 + b\<^sup>2))" "hypot NaN u = NaN" "hypot u NaN = NaN"
  by (simp_all add: hypot_def split: flt.splits)

lemma hypot_zero: "hypot a b = Fin 0 \<Longrightarrow> a = Fin 0 \<and> b = Fin 0"
  by (cases a; cases b) (simp_all add: sum_power2_eq_zero_iff)

lemma hypot_Fin: "hypot a b = Fin d \<Longrightarrow> \<exists>p q. a = Fin p \<and> b = Fin q \<and> d = sqrt (p\<^sup>2 + q\<^sup>2)"
  by (cases a; cases b) simp_all

lemma shorten_vector:
  assumes "mn \<le> hypot (x_of (Q - P)) (y_of (Q - P))"
  shows "Q - scale mn (vdiv (Q - P) (hypot (x_of (Q - P)) (y_of (Q - P))))
       = P + vdiv (scale (hypot (x_of (Q - P)) (y_of (Q - P)) - mn) (Q - P))
               (hypot (x_of (Q - P)) (y_of (Q - P)))"
proof -
  obtain qx qy px py where Q: "Q = Vector2 qx qy" and P: "P = Vector2 px py"
    by (cases Q, cases P) blast
  from assms obtain d where d: "hypot (x_of (Q - P)) (y_of (Q - P)) = Fin d"
    by (cases "hypot (x_of (Q - P)) (y_of (Q - P))") simp_all
  from assms d obtain m where m: "mn = Fin m"
    by (cases mn) simp_all
  from hypot_Fin [OF d] obtain a b where ab: "qx - px = Fin a" "qy - py = Fin b"
    by (auto simp: Q P minus_Vector2_def)
  from ab obtain qx' px' qy' py' where c: "qx = Fin qx'" "px = Fin px'" "qy = Fin qy'" "py = Fin py'"
    by (cases qx; cases px; cases qy; cases py) simp_all
  show ?thesis
    unfolding d unfolding Q P m c
    by (simp add: minus_Vector2_def plus_Vector2_def scale_def vdiv_def)
      (simp add: field_simps)
qed

lemma shorten_vector_finite:
  assumes "mn \<le> hypot (x_of (Q - P)) (y_of (Q - P))"
    and "Fin 0 < hypot (x_of (Q - P)) (y_of (Q - P))"
  shows "\<exists>rx ry. Q - scale mn (vdiv (Q - P) (hypot (x_of (Q - P)) (y_of (Q - P))))
           = Vector2 (Fin rx) (Fin ry)"
proof -
  obtain qx qy px py where Q: "Q = Vector2 qx qy" and P: "P = Vector2 px py"
    by (cases Q, cases P) blast
  from assms obtain d where d: "hypot (x_of (Q - P)) (y_of (Q - P)) = Fin d"
    by (cases "hypot (x_of (Q - P)) (y_of (Q - P))") simp_all
  from assms d obtain m where m: "mn = Fin m"
    by (cases mn) simp_all
  from assms(2) d have pos: "d \<noteq> 0"
    by simp
  from hypot_Fin [OF d] obtain a b where ab: "qx - px = Fin a" "qy - py = Fin b"
    by (auto simp: Q P minus_Vector2_def)
  from ab obtain qx' px' qy' py' where c: "qx = Fin qx'" "px = Fin px'" "qy = Fin qy'" "py = Fin py'"
    by (cases qx; cases px; cases qy; cases py) simp_all
  show ?thesis
    unfolding d unfolding Q P m c using pos
    by (simp add: minus_Vector2_def scale_def vdiv_def)
qed

section \<open>The stabilizer: basic facts\<close>

text \<open>
  The history is never empty: the constructor builds \<open>max(temporal_window, 2)\<close> frames,
  and \<open>stabilize\<close> and \<open>reset\<close> keep their number (lemma \<open>reachable_frames\<close>). The
  theorems below assume \<open>m_frames s \<noteq> []\<close>, which therefore holds in every state the
  class can reach (lemma \<open>reachable_nonempty\<close>).
\<close>

lemma Stabilizer_new_frames:
  "length (m_frames (Stabilizer_new config)) = max (temporal_window config) 2"
  by (simp add: Stabilizer_new_def)

lemma stabilize_length:
  "stabilize frame s = Some (out, s') \<Longrightarrow> length (m_frames s') = length (m_frames s) \<and> m_config s' = m_config s"
  by (cases "m_frames s") (auto simp: stabilize_def Let_def)

lemma reset_length: "length (m_frames (reset s)) = length (m_frames s) \<and> m_config (reset s) = m_config s"
  by (simp add: reset_def)

lemma reachable_frames:
  "reachable s \<Longrightarrow> length (m_frames s) = max (temporal_window (m_config s)) 2"
proof (induction rule: reachable.induct)
  case (constructed config)
  show ?case by (simp add: Stabilizer_new_def)
next
  case (stabilized s frame out s')
  then show ?case using stabilize_length [of frame s out s'] by simp
next
  case (cleared s)
  then show ?case by (simp add: reset_length)
qed

lemma reachable_nonempty: "reachable s \<Longrightarrow> m_frames s \<noteq> []"
  using reachable_frames [of s] by auto

lemma find_in_frame_None: "find_in_frame i frame = None \<longleftrightarrow> (\<forall>d \<in> set frame. index d \<noteq> Some i)"
  by (auto simp: find_in_frame_def find_None_iff)

lemma find_in_frame_Some: "find_in_frame i frame = Some l \<Longrightarrow> l \<in> set frame \<and> index l = Some i"
  by (auto simp: find_in_frame_def find_Some_iff)

lemma check_frames_iff: "check_frames i frames \<longleftrightarrow> (\<forall>f \<in> set frames. find_in_frame i f \<noteq> None)"
  by (induction frames) auto

lemma check_temporal_iff:
  "check_temporal frames c \<longleftrightarrow>
     (case index c of None \<Rightarrow> True | Some i \<Rightarrow> \<forall>f \<in> set frames. \<exists>d \<in> set f. index d = Some i)"
  by (auto simp: check_temporal_def check_frames_iff find_in_frame_None split: option.splits)

lemma stabilize_Some:
  assumes "m_frames s \<noteq> []"
  shows "stabilize frame s =
     Some (let nf = map (\<lambda>c. stabilize_contact (m_config s) c (last (m_frames s))) frame
           in (if check_temporal_stability (m_config s) \<and> 2 \<le> temporal_window (m_config s)
               then filter (check_temporal (tl (m_frames s))) nf else nf,
               s\<lparr>m_frames := tl (m_frames s) @ [nf]\<rparr>))"
  using assms by (cases "m_frames s") (simp_all add: stabilize_def Let_def)

lemma stabilize_contact_window_lt2:
  "temporal_window cfg < 2 \<Longrightarrow> stabilize_contact cfg c prev = c"
  by (simp add: stabilize_contact_def split: option.splits)

lemma stabilize_contact_matched:
  assumes "index c = Some i" "2 \<le> temporal_window cfg" "find_in_frame i prev = Some l"
  shows "stabilize_contact cfg c prev = stabilize_movement cfg (stabilize_size cfg c l) l"
  using assms by (simp add: stabilize_contact_def stabilize_size_def stabilize_movement_def Let_def split: option.splits)

lemma stabilize_size_mean [simp]: "mean (stabilize_size cfg c l) = mean c"
  by (simp add: stabilize_size_def Let_def split: option.splits)

lemma stabilize_movement_size [simp]: "size_c (stabilize_movement cfg c l) = size_c c"
  by (simp add: stabilize_movement_def Let_def split: option.splits)

lemma index_stabilize_contact [simp]: "index (stabilize_contact cfg c prev) = index c"
  by (simp add: stabilize_contact_def stabilize_size_def stabilize_movement_def Let_def split: option.splits)

lemma stabilize_contact_check [simp]:
  "stabilize_contact (cfg\<lparr>check_temporal_stability := b\<rparr>) c prev = stabilize_contact cfg c prev"
  by (simp add: stabilize_contact_def stabilize_size_def stabilize_movement_def Let_def split: option.splits)

lemma map_single: "length xs = Suc 0 \<Longrightarrow> map f xs = [f (xs ! 0)]"
  by (cases xs) auto

section \<open>The stabilizer: requested window below 2\<close>

text \<open>
  C1, as the code has it. When a \<open>temporal_window\<close> of at most 1 is requested and
  \<open>check_temporal_stability\<close> is false, \<open>stabilize\<close> removes no contact and corrects
  none: the frame comes back as it went in, and is stored in the history as it is.
  \<open>stabilize_contact\<close> returns early on the requested window (\<open>temporal_window < 2\<close>);
  the clamp to 2 only fixes the number of history frames.
\<close>

theorem window_le1_passthrough:
  assumes "temporal_window (m_config s) \<le> 1" "\<not> check_temporal_stability (m_config s)"
    and "m_frames s \<noteq> []"
  shows "stabilize frame s = Some (frame, s\<lparr>m_frames := tl (m_frames s) @ [frame]\<rparr>)"
proof -
  have "temporal_window (m_config s) < 2" using assms(1) by simp
  then have "map (\<lambda>c. stabilize_contact (m_config s) c (last (m_frames s))) frame = frame"
    by (simp add: stabilize_contact_window_lt2 map_idI)
  then show ?thesis
    using assms by (simp add: stabilize_Some Let_def)
qed

theorem window_le1_passthrough_witness:
  "stabilize [c_new] st_w1 = Some ([c_new], st_w1\<lparr>m_frames := [[c_prev], [c_new]]\<rparr>)"
proof -
  have "temporal_window (m_config st_w1) \<le> 1" "\<not> check_temporal_stability (m_config st_w1)"
    "m_frames st_w1 \<noteq> []"
    by (simp_all add: st_w1_def cfg_w1_def)
  from window_le1_passthrough [OF this, of "[c_new]"] show ?thesis
    by (simp add: st_w1_def)
qed

text \<open>
  C1 as stated has the correction still applied below a window of 2. With a window of 1
  and a size threshold of 1, a contact of index 0 and size \<open>(5, 5)\<close> follows one of index
  0 and size \<open>(1, 1)\<close>, stored by the preceding call. \<open>stabilize_size\<close> would give it
  the previous size; \<open>stabilize\<close> returns it unchanged.
\<close>

theorem window_le1_no_correction_counterexample:
  "temporal_window cfg_w1 \<le> 1 \<and> \<not> check_temporal_stability cfg_w1
   \<and> stabilize [c_prev] (Stabilizer_new cfg_w1) = Some ([c_prev], st_w1)
   \<and> index c_new = Some 0
   \<and> find_in_frame 0 (last (m_frames st_w1)) = Some c_prev
   \<and> stabilize_size cfg_w1 c_new c_prev = c_new\<lparr>size_c := size_c c_prev\<rparr>
   \<and> size_c c_prev \<noteq> size_c c_new
   \<and> stabilize [c_new] st_w1 = Some ([c_new], st_w1\<lparr>m_frames := [[c_prev], [c_new]]\<rparr>)"
  by (simp add: cfg_w1_def st_w1_def c_prev_def c_new_def Stabilizer_new_def stabilize_def
      stabilize_contact_def stabilize_size_def find_in_frame_def Let_def cwiseAbs_def all_le_def
      minus_Vector2_def numeral_2_eq_2)

section \<open>The stabilizer: movement correction\<close>

text \<open>
  C2, as the code has it. Let the requested \<open>temporal_window\<close> be at least 2 and
  \<open>movement_limits = (min, max)\<close> be configured. For the contact at position \<open>k\<close> of the
  frame, with an index that the most recently stored history frame has at a contact
  \<open>l\<close>, let \<open>P\<close> be the mean of \<open>l\<close>, \<open>Q\<close> the incoming mean and \<open>distance\<close> the
  length of \<open>Q - P\<close>. The corrected contact \<open>r\<close>, which is stored in the history and
  handed back unless the temporal filter drops it, has the mean \<open>P\<close> if
  \<open>distance < min\<close> or \<open>distance > max\<close>. If \<open>min \<le> distance \<le> max\<close> and
  \<open>distance > 0\<close>, its mean is \<open>Q - min * (Q - P) / distance\<close>, as the code computes it,
  which is finite and in exact arithmetic equal to
  \<open>P + (distance - min) * (Q - P) / distance\<close>. Nothing is said about \<open>distance = 0\<close>
  within the limits.
\<close>

theorem movement_correction:
  assumes "m_frames s \<noteq> []" "2 \<le> temporal_window (m_config s)"
    and "movement_limits (m_config s) = Some (Vector2 mn mx)"
    and "k < length frame" "index (frame ! k) = Some i"
    and "find_in_frame i (last (m_frames s)) = Some l"
  shows "\<exists>out s'. stabilize frame s = Some (out, s')
     \<and> length (last (m_frames s')) = length frame
     \<and> out = (if check_temporal_stability (m_config s)
              then filter (check_temporal (tl (m_frames s))) (last (m_frames s'))
              else last (m_frames s'))
     \<and> (let r = last (m_frames s') ! k;
             P = mean l; Q = mean (frame ! k);
             distance = hypot (x_of (Q - P)) (y_of (Q - P))
         in (distance < mn \<or> distance > mx \<longrightarrow> mean r = P)
          \<and> (mn \<le> distance \<and> distance \<le> mx \<and> Fin 0 < distance \<longrightarrow>
               mean r = Q - scale mn (vdiv (Q - P) distance)
               \<and> mean r = P + vdiv (scale (distance - mn) (Q - P)) distance
               \<and> (\<exists>rx ry. mean r = Vector2 (Fin rx) (Fin ry))))"
proof -
  let ?c = "frame ! k"
  let ?d = "hypot (x_of (mean ?c - mean l)) (y_of (mean ?c - mean l))"
  have r: "stabilize_contact (m_config s) ?c (last (m_frames s))
        = stabilize_movement (m_config s) (stabilize_size (m_config s) ?c l) l"
    using assms by (simp add: stabilize_contact_matched)
  have mv: "mean (stabilize_contact (m_config s) ?c (last (m_frames s)))
        = (if mn \<le> ?d \<and> ?d \<le> mx
           then mean ?c - scale mn (vdiv (mean ?c - mean l) ?d) else mean l)"
    using assms(3) by (simp add: r stabilize_movement_def Let_def)
  have out: "?d < mn \<or> mx < ?d \<Longrightarrow> \<not> (mn \<le> ?d \<and> ?d \<le> mx)"
    using flt_less_not_le by blast
  have fin: "mn \<le> ?d \<Longrightarrow> Fin 0 < ?d \<Longrightarrow>
      \<exists>rx ry. mean ?c - scale mn (vdiv (mean ?c - mean l) ?d) = Vector2 (Fin rx) (Fin ry)"
    by (rule shorten_vector_finite)
  show ?thesis
    using assms(1,2,4) out fin
    by (auto simp: stabilize_Some Let_def mv shorten_vector)
qed

theorem movement_correction_witness:
  "(\<exists>out s'. stabilize [c_new] st_w2 = Some (out, s')
      \<and> mean (last (m_frames s') ! 0) = Vector2 (Fin (1/2)) (Fin 0)
      \<and> map mean out = [Vector2 (Fin (1/2)) (Fin 0)])
   \<and> (\<exists>out s'. stabilize [c_far] st_w2 = Some (out, s')
      \<and> mean (last (m_frames s') ! 0) = Vector2 (Fin 0) (Fin 0)
      \<and> map mean out = [Vector2 (Fin 0) (Fin 0)])"
proof -
  have h: "m_frames st_w2 \<noteq> []" "2 \<le> temporal_window (m_config st_w2)"
    "movement_limits (m_config st_w2) = Some (Vector2 (Fin (1/2)) (Fin 3))"
    by (simp_all add: st_w2_def cfg_w2_def)
  have n: "0 < length [c_new]" "index ([c_new] ! 0) = Some 0"
    "find_in_frame 0 (last (m_frames st_w2)) = Some c_prev"
    by (simp_all add: st_w2_def c_new_def c_prev_def find_in_frame_def)
  have f: "0 < length [c_far]" "index ([c_far] ! 0) = Some 0"
    by (simp_all add: c_far_def)
  have c: "\<not> check_temporal_stability (m_config st_w2)"
    by (simp add: st_w2_def cfg_w2_def)
  have r: "sqrt 25 = 5"
    by (rule real_sqrt_unique) simp_all
  from movement_correction [OF h n] movement_correction [OF h f n(3)] c show ?thesis
    by (auto simp add: Let_def c_new_def c_far_def c_prev_def minus_Vector2_def plus_Vector2_def
        scale_def vdiv_def r map_single)
qed

text \<open>
  C2 as stated covers every configuration with limits and every distance within them. It
  fails where the requested window is below 2: with a requested window of 1 and limits
  \<open>(2, 3)\<close>, the contact of index 0 moves from \<open>(0, 0)\<close> to \<open>(1, 0)\<close>; the distance 1
  is below the minimum, and the mean is left at \<open>(1, 0)\<close>. And it fails at the distance
  0 within the limits: with a requested window of 2 and limits \<open>(0, 1)\<close>, the contact of
  index 0 stays at \<open>(1/2, 1/2)\<close>, and its mean becomes \<open>NaN\<close> on both axes, which is
  no point at all.
\<close>

theorem movement_correction_counterexample:
  "index c_new = Some 0
   \<and> find_in_frame 0 (last (m_frames st_w1)) = Some c_prev
   \<and> movement_limits (m_config st_w1) = Some (Vector2 (Fin 2) (Fin 3))
   \<and> hypot (x_of (mean c_new - mean c_prev)) (y_of (mean c_new - mean c_prev)) < Fin 2
   \<and> stabilize [c_new] st_w1 = Some ([c_new], st_w1\<lparr>m_frames := [[c_prev], [c_new]]\<rparr>)
   \<and> mean c_new \<noteq> mean c_prev
   \<and> index c_still = Some 0
   \<and> find_in_frame 0 (last (m_frames st_m0)) = Some c_still
   \<and> 2 \<le> temporal_window (m_config st_m0)
   \<and> movement_limits (m_config st_m0) = Some (Vector2 (Fin 0) (Fin 1))
   \<and> hypot (x_of (mean c_still - mean c_still)) (y_of (mean c_still - mean c_still)) = Fin 0
   \<and> Fin 0 \<le> hypot (x_of (mean c_still - mean c_still)) (y_of (mean c_still - mean c_still))
   \<and> hypot (x_of (mean c_still - mean c_still)) (y_of (mean c_still - mean c_still)) \<le> Fin 1
   \<and> mean c_still = Vector2 (Fin (1/2)) (Fin (1/2))
   \<and> stabilize [c_still] st_m0
       = Some ([c_still\<lparr>mean := Vector2 NaN NaN\<rparr>],
               st_m0\<lparr>m_frames := [[c_still], [c_still\<lparr>mean := Vector2 NaN NaN\<rparr>]]\<rparr>)"
  by (simp add: cfg_w1_def st_w1_def c_prev_def c_new_def stabilize_def
      stabilize_contact_def find_in_frame_def Let_def minus_Vector2_def
      cfg_m0_def st_m0_def c_still_def stabilize_movement_def scale_def vdiv_def)

text \<open>
  C9. With limits \<open>(0, 1)\<close> and a requested window of 2, a contact that has not moved
  since the preceding frame has the distance 0, which lies within the limits: the
  correction branch is taken and divides by 0. The mean becomes \<open>NaN\<close> on both axes, and
  stays \<open>NaN\<close> in the following frame wherever the contact moves, since every comparison
  with the stored \<open>NaN\<close> fails and the stored mean is copied.
\<close>

theorem zero_distance_division:
  "stabilize [c_still] (Stabilizer_new cfg_m0) = Some ([c_still], st_m0)
   \<and> hypot (x_of (mean c_still - mean c_still)) (y_of (mean c_still - mean c_still)) = Fin 0
   \<and> stabilize [c_still] st_m0
       = Some ([c_still\<lparr>mean := Vector2 NaN NaN\<rparr>],
               st_m0\<lparr>m_frames := [[c_still], [c_still\<lparr>mean := Vector2 NaN NaN\<rparr>]]\<rparr>)
   \<and> stabilize [c_moved] (st_m0\<lparr>m_frames := [[c_still], [c_still\<lparr>mean := Vector2 NaN NaN\<rparr>]]\<rparr>)
       = Some ([c_moved\<lparr>mean := Vector2 NaN NaN\<rparr>],
               st_m0\<lparr>m_frames := [[c_still\<lparr>mean := Vector2 NaN NaN\<rparr>],
                                   [c_moved\<lparr>mean := Vector2 NaN NaN\<rparr>]]\<rparr>)"
  by (simp add: cfg_m0_def st_m0_def c_still_def c_moved_def Stabilizer_new_def stabilize_def
      stabilize_contact_def stabilize_movement_def find_in_frame_def Let_def
      minus_Vector2_def scale_def vdiv_def numeral_2_eq_2)

text \<open>With a positive minimum the divisor is at least the minimum, and the mean stays finite.\<close>

lemma movement_finite_when_min_positive:
  assumes "movement_limits cfg = Some (Vector2 (Fin mn) (Fin mx))" "0 < mn"
    and "mean c = Vector2 (Fin qx) (Fin qy)" "mean l = Vector2 (Fin px) (Fin py)"
  shows "\<exists>rx ry. mean (stabilize_movement cfg c l) = Vector2 (Fin rx) (Fin ry)"
  using assms
  by (auto simp: stabilize_movement_def Let_def minus_Vector2_def scale_def vdiv_def)

section \<open>The stabilizer: size correction\<close>

text \<open>
  C8, as the code has it. Let the requested \<open>temporal_window\<close> be at least 2 and a
  \<open>size_difference_threshold\<close> \<open>t\<close> be configured. For the contact at position \<open>k\<close> of
  the frame, with an index that the most recently stored history frame has at a contact
  \<open>l\<close>: if the absolute difference between the incoming size and the size of \<open>l\<close> is
  at most \<open>t\<close> on both axes, the corrected contact keeps the incoming size; if it exceeds
  \<open>t\<close> on either axis, the corrected contact has the size of \<open>l\<close> on both axes. The
  corrected contact is the one stored in the history, and handed back unless the temporal
  filter drops it.
\<close>

theorem size_correction:
  assumes "m_frames s \<noteq> []" "2 \<le> temporal_window (m_config s)"
    and "size_difference_threshold (m_config s) = Some t"
    and "k < length frame" "index (frame ! k) = Some i"
    and "find_in_frame i (last (m_frames s)) = Some l"
  shows "\<exists>out s'. stabilize frame s = Some (out, s')
     \<and> length (last (m_frames s')) = length frame
     \<and> out = (if check_temporal_stability (m_config s)
              then filter (check_temporal (tl (m_frames s))) (last (m_frames s'))
              else last (m_frames s'))
     \<and> (let r = last (m_frames s') ! k;
             delta = cwiseAbs (size_c (frame ! k) - size_c l)
         in (x_of delta \<le> t \<and> y_of delta \<le> t \<longrightarrow> size_c r = size_c (frame ! k))
          \<and> (x_of delta > t \<or> y_of delta > t \<longrightarrow> size_c r = size_c l))"
proof -
  let ?c = "frame ! k"
  have r: "stabilize_contact (m_config s) ?c (last (m_frames s))
        = stabilize_movement (m_config s) (stabilize_size (m_config s) ?c l) l"
    using assms by (simp add: stabilize_contact_matched)
  have sz: "size_c (stabilize_contact (m_config s) ?c (last (m_frames s)))
        = (if all_le (cwiseAbs (size_c ?c - size_c l)) t then size_c ?c else size_c l)"
    using assms(3) by (simp add: r stabilize_size_def Let_def)
  show ?thesis
    using assms(1,2,4) flt_less_not_le
    by (auto simp: stabilize_Some Let_def sz all_le_def)
qed

theorem size_correction_witness:
  "(\<exists>out s'. stabilize [c_new] st_w2 = Some (out, s')
      \<and> size_c (last (m_frames s') ! 0) = Vector2 (Fin 1) (Fin 1)
      \<and> map size_c out = [Vector2 (Fin 1) (Fin 1)])
   \<and> (\<exists>out s'. stabilize [c_far] st_w2 = Some (out, s')
      \<and> size_c (last (m_frames s') ! 0) = Vector2 (Fin (3/2)) (Fin 1)
      \<and> map size_c out = [Vector2 (Fin (3/2)) (Fin 1)])"
proof -
  have h: "m_frames st_w2 \<noteq> []" "2 \<le> temporal_window (m_config st_w2)"
    "size_difference_threshold (m_config st_w2) = Some (Fin 1)"
    by (simp_all add: st_w2_def cfg_w2_def)
  have n: "0 < length [c_new]" "index ([c_new] ! 0) = Some 0"
    "find_in_frame 0 (last (m_frames st_w2)) = Some c_prev"
    by (simp_all add: st_w2_def c_new_def c_prev_def find_in_frame_def)
  have f: "0 < length [c_far]" "index ([c_far] ! 0) = Some 0"
    by (simp_all add: c_far_def)
  have c: "\<not> check_temporal_stability (m_config st_w2)"
    by (simp add: st_w2_def cfg_w2_def)
  from size_correction [OF h n] size_correction [OF h f n(3)] c show ?thesis
    by (auto simp add: Let_def c_new_def c_far_def c_prev_def cwiseAbs_def minus_Vector2_def
        map_single)
qed

text \<open>
  C8 as stated covers every configuration with a threshold, and fails where the requested
  window is below 2. With a requested window of 1 and a threshold of 1, the size of the contact of index 0 grows from \<open>(1, 1)\<close> to
  \<open>(5, 5)\<close> and is left at \<open>(5, 5)\<close>.
\<close>

theorem size_correction_window1_counterexample:
  "index c_new = Some 0
   \<and> find_in_frame 0 (last (m_frames st_w1)) = Some c_prev
   \<and> size_difference_threshold (m_config st_w1) = Some (Fin 1)
   \<and> x_of (cwiseAbs (size_c c_new - size_c c_prev)) > Fin 1
   \<and> stabilize [c_new] st_w1 = Some ([c_new], st_w1\<lparr>m_frames := [[c_prev], [c_new]]\<rparr>)
   \<and> size_c c_new \<noteq> size_c c_prev"
  by (simp add: cfg_w1_def st_w1_def c_prev_def c_new_def stabilize_def
      stabilize_contact_def find_in_frame_def Let_def cwiseAbs_def minus_Vector2_def)

section \<open>The stabilizer: temporal filtering and the history\<close>

text \<open>
  C3. With \<open>check_temporal_stability\<close> and a requested window of at least 2, the frame
  that \<open>stabilize\<close> hands back holds the corrected contacts of exactly those incoming
  contacts that have no index, or whose index is found in every frame of the history as
  it is after the oldest frame was evicted and before the new frame is inserted
  (\<open>tl (m_frames s)\<close>), in their order.
\<close>

theorem temporal_filter_keeps:
  assumes "m_frames s \<noteq> []" "check_temporal_stability (m_config s)"
    and "2 \<le> temporal_window (m_config s)"
  shows "\<exists>out s'. stabilize frame s = Some (out, s')
     \<and> out = map (\<lambda>c. stabilize_contact (m_config s) c (last (m_frames s)))
           (filter (\<lambda>c. case index c of None \<Rightarrow> True
                        | Some i \<Rightarrow> \<forall>f \<in> set (tl (m_frames s)). \<exists>d \<in> set f. index d = Some i)
              frame)"
  using assms by (simp add: stabilize_Some Let_def filter_map comp_def check_temporal_iff)

theorem temporal_filter_keeps_witness:
  "\<exists>out s'. stabilize [c_new, c_other, c_untracked] st_t2 = Some (out, s')
     \<and> out = [c_new, c_untracked]"
proof -
  have h: "m_frames st_t2 \<noteq> []" "check_temporal_stability (m_config st_t2)"
    "2 \<le> temporal_window (m_config st_t2)"
    by (simp_all add: st_t2_def cfg_t2_def)
  from temporal_filter_keeps [OF h, of "[c_new, c_other, c_untracked]"] show ?thesis
    by (simp add: st_t2_def cfg_t2_def c_new_def c_prev_def c_other_def c_untracked_def
        stabilize_contact_def find_in_frame_def)
qed

text \<open>
  C4. After \<open>stabilize\<close> the newest frame of the history is the frame of all corrected
  contacts of the call. The frame handed back is that frame, filtered or not; and the
  stored history is the same whatever \<open>check_temporal_stability\<close> is.
\<close>

theorem history_keeps_all_corrected:
  assumes "m_frames s \<noteq> []"
  shows "\<exists>out s'. stabilize frame s = Some (out, s')
     \<and> m_frames s' = tl (m_frames s)
          @ [map (\<lambda>c. stabilize_contact (m_config s) c (last (m_frames s))) frame]
     \<and> out = (if check_temporal_stability (m_config s) \<and> 2 \<le> temporal_window (m_config s)
              then filter (check_temporal (tl (m_frames s))) (last (m_frames s'))
              else last (m_frames s'))
     \<and> (\<forall>b. map_option (\<lambda>r. m_frames (snd r))
               (stabilize frame (s\<lparr>m_config := (m_config s)\<lparr>check_temporal_stability := b\<rparr>\<rparr>))
             = Some (m_frames s'))"
  using assms by (simp add: stabilize_Some Let_def)

theorem history_keeps_all_corrected_witness:
  "\<exists>out s'. stabilize [c_new, c_other, c_untracked] st_t2 = Some (out, s')
     \<and> m_frames s' = [[c_prev], [c_new, c_other, c_untracked]]
     \<and> out = [c_new, c_untracked]"
proof -
  have h: "m_frames st_t2 \<noteq> []"
    by (simp add: st_t2_def)
  from history_keeps_all_corrected [OF h, of "[c_new, c_other, c_untracked]"] show ?thesis
    by (auto simp add: st_t2_def cfg_t2_def c_new_def c_prev_def c_other_def c_untracked_def
        stabilize_contact_def find_in_frame_def check_temporal_def)
qed

section \<open>The stylus device: basic facts\<close>

lemma update_inactive:
  "rubber (m_last s) \<noteq> rubber data \<or> \<not> proximity data \<Longrightarrow>
   update M P data s =
     (lift @ sync,
      s\<lparr>m_active := False, m_last := data,
        m_predictor := (if \<not> contact (m_last s) \<and> contact data
                        then pred_reset P (m_predictor s) else m_predictor s)\<rparr>)"
  by (auto simp: update_def Let_def)

lemma last_update [simp]: "m_last (snd (update M P data s)) = data"
  by (simp add: update_def Let_def split: prod.splits)

lemma enabled_update [simp]: "m_enabled (snd (update M P data s)) = m_enabled s"
  by (simp add: update_def Let_def split: prod.splits)

lemma active_update: "m_active (snd (update M P data s)) \<longleftrightarrow> proximity data \<and> rubber (m_last s) = rubber data"
  by (simp add: update_def Let_def split: prod.splits)

lemma update_enabled_irrelevant:
  "update M P data (s\<lparr>m_enabled := b\<rparr>)
   = (fst (update M P data s), (snd (update M P data s))\<lparr>m_enabled := b\<rparr>)"
  by (simp add: update_def Let_def split: prod.splits)

section \<open>The stylus device: switching tools\<close>

text \<open>
  C5. When two consecutive calls of \<open>update\<close> get samples that differ in \<open>rubber\<close>, the
  second call emits exactly five events: touch, pen, rubber and stylus button at 0, and
  the sync report; this whatever \<open>proximity\<close> is, and \<open>active\<close> is false after it. A
  call of \<open>update\<close> emits a tool button at 1 only if its sample has the \<open>rubber\<close> of the
  sample before; and if it has, and \<open>proximity\<close> is true, it emits the button of its tool
  at 1.
\<close>

theorem tool_flip_lifts:
  "(rubber a \<noteq> rubber b \<longrightarrow>
      fst (update M P b (snd (update M P a s)))
        = [(EV_KEY, BTN_TOUCH, 0), (EV_KEY, BTN_TOOL_PEN, 0), (EV_KEY, BTN_TOOL_RUBBER, 0),
           (EV_KEY, BTN_STYLUS, 0), (EV_SYN, SYN_REPORT, 0)]
      \<and> \<not> active (snd (update M P b (snd (update M P a s)))))
   \<and> ((EV_KEY, BTN_TOOL_PEN, 1) \<in> set (fst (update M P d s))
        \<or> (EV_KEY, BTN_TOOL_RUBBER, 1) \<in> set (fst (update M P d s))
      \<longrightarrow> rubber (m_last s) = rubber d)
   \<and> (rubber (m_last s) = rubber d \<and> proximity d \<longrightarrow>
        (EV_KEY, if rubber d then BTN_TOOL_RUBBER else BTN_TOOL_PEN, 1) \<in> set (fst (update M P d s)))"
proof (intro conjI impI)
  assume f: "rubber a \<noteq> rubber b"
  then have "rubber (m_last (snd (update M P a s))) \<noteq> rubber b" by simp
  then show "fst (update M P b (snd (update M P a s)))
        = [(EV_KEY, BTN_TOUCH, 0), (EV_KEY, BTN_TOOL_PEN, 0), (EV_KEY, BTN_TOOL_RUBBER, 0),
           (EV_KEY, BTN_STYLUS, 0), (EV_SYN, SYN_REPORT, 0)]"
    by (simp add: update_inactive lift_def sync_def)
  from f show "\<not> active (snd (update M P b (snd (update M P a s))))"
    by (simp add: active_def active_update)
next
  assume "(EV_KEY, BTN_TOOL_PEN, 1) \<in> set (fst (update M P d s))
        \<or> (EV_KEY, BTN_TOOL_RUBBER, 1) \<in> set (fst (update M P d s))"
  then show "rubber (m_last s) = rubber d"
    by (cases "rubber (m_last s) = rubber d") (auto simp: update_inactive lift_def sync_def)
next
  assume "rubber (m_last s) = rubber d \<and> proximity d"
  then show "(EV_KEY, if rubber d then BTN_TOOL_RUBBER else BTN_TOOL_PEN, 1) \<in> set (fst (update M P d s))"
    by (simp add: update_def Let_def split: prod.splits)
qed

theorem tool_flip_lifts_witness:
  "fst (update exact_libm fake_predictor rubber_down
          (snd (update exact_libm fake_predictor pen_down dev_hover)))
     = [(EV_KEY, BTN_TOUCH, 0), (EV_KEY, BTN_TOOL_PEN, 0), (EV_KEY, BTN_TOOL_RUBBER, 0),
        (EV_KEY, BTN_STYLUS, 0), (EV_SYN, SYN_REPORT, 0)]
   \<and> \<not> active (snd (update exact_libm fake_predictor rubber_down
          (snd (update exact_libm fake_predictor pen_down dev_hover))))
   \<and> rubber (m_last dev_hover) = rubber pen_down
   \<and> (EV_KEY, BTN_TOOL_PEN, 1) \<in> set (fst (update exact_libm fake_predictor pen_down dev_hover))"
  using tool_flip_lifts [of pen_down rubber_down exact_libm fake_predictor dev_hover pen_down]
  by (simp add: pen_down_def rubber_down_def dev_hover_def pen_hover_def)

section \<open>The stylus device: tilt\<close>

text \<open>
  \<open>calculate_tilt\<close> jumps at the altitude \<open>\<pi> / 2\<close> and the azimuth 0. With the exact
  functions it gives \<open>(9000, -9000)\<close> there, and the Y tilt 0 at every altitude between
  0 and \<open>\<pi> / 2\<close>: the cosine is 0 at \<open>\<pi> / 2\<close> and positive below, and \<open>atan2\<close> is
  0 at \<open>(0, 0)\<close> and \<open>\<pi> / 2\<close> at \<open>(c, 0)\<close> with \<open>c > 0\<close>. No double is \<open>\<pi> / 2\<close>,
  so what the program gives for the double nearest to it depends on how that double and
  the library's results are rounded, which this theory does not model.
\<close>

lemma calculate_tilt_exact_half_pi:
  "calculate_tilt exact_libm (pi / 2) 0 = (9000, - 9000)"
proof -
  have "\<not> pi / 2 \<le> 0"
    using pi_gt_zero by linarith
  then show ?thesis
    by (simp add: calculate_tilt_def exact_libm_def atan2_exact_def c_round_def to_i32_def)
qed

lemma calculate_tilt_exact_below_half_pi:
  assumes "0 < alt" "alt < pi / 2"
  shows "snd (calculate_tilt exact_libm alt 0) = 0"
proof -
  have c: "0 < cos alt"
    using assms by (simp add: cos_gt_zero_pi)
  have "pi / 2 * 4500 / (pi / 4) = 9000"
    by simp
  then have "c_round (pi / 2 * 4500 / (pi / 4)) = 9000"
    by (simp add: c_round_def)
  then show ?thesis
    using assms c
    by (simp add: calculate_tilt_def exact_libm_def atan2_exact_def to_i32_def Let_def)
qed

section \<open>The stylus device: prediction\<close>

text \<open>
  C7, as the code has it. When the stylus is active for the sample (\<open>proximity\<close> is true
  and \<open>rubber\<close> is that of the sample before), the prediction target is positive and the
  sample has \<open>contact\<close>, the predictor (reset first, if the sample before had no
  contact) is fed the position and the pressure of the sample and asked to predict by
  the target. If it succeeds the emitted position and pressure are the predicted ones, in
  device units; if it fails they are those of the sample, and the whole report is the
  one that the same call emits with prediction switched off. Every other emitted value
  is that of the sample in both cases.
\<close>

theorem prediction_fallback:
  assumes "proximity data" "rubber (m_last s) = rubber data"
    and "0 < m_prediction_target s" "contact data"
  shows "let pr0 = (if \<not> contact (m_last s) then pred_reset P (m_predictor s) else m_predictor s);
             res = pred_predict P (m_prediction_target s)
                     (pred_update P (data_x data, data_y data) (pressure data) pr0);
             cx = (if fst res then fst (pred_position P (snd res)) else data_x data);
             cy = (if fst res then snd (pred_position P (snd res)) else data_y data);
             cp = (if fst res then pred_pressure P (snd res) else pressure data)
         in m_predictor (snd (update M P data s)) = snd res
          \<and> fst (update M P data s) =
              [(EV_KEY, BTN_TOUCH, 1),
               (EV_KEY, BTN_TOOL_PEN, if \<not> rubber data then 1 else 0),
               (EV_KEY, BTN_TOOL_RUBBER, if rubber data then 1 else 0),
               (EV_KEY, BTN_STYLUS, if button data then 1 else 0),
               (EV_ABS, ABS_X, to_i32 (c_round (cx * real MAX_X))),
               (EV_ABS, ABS_Y, to_i32 (c_round (cy * real MAX_Y))),
               (EV_ABS, ABS_PRESSURE, to_i32 (c_round (cp * real MAX_P))),
               (EV_ABS, ABS_MISC, timestamp data),
               (EV_ABS, ABS_TILT_X, fst (calculate_tilt M (altitude data) (azimuth data))),
               (EV_ABS, ABS_TILT_Y, snd (calculate_tilt M (altitude data) (azimuth data))),
               (EV_SYN, SYN_REPORT, 0)]
          \<and> (\<not> fst res \<longrightarrow>
                fst (update M P data s) = fst (update M P data (s\<lparr>m_prediction_target := 0\<rparr>)))
          \<and> active (snd (update M P data s))"
  using assms
  by (simp add: update_def Let_def sync_def active_def split: prod.splits)

theorem prediction_fallback_witness:
  "m_predictor (snd (update exact_libm fake_predictor pen_down dev_hover)) = [(1/2, 1/2, 1/4)]
   \<and> fst (update exact_libm fake_predictor pen_down dev_hover) =
       [(EV_KEY, BTN_TOUCH, 1), (EV_KEY, BTN_TOOL_PEN, 1), (EV_KEY, BTN_TOOL_RUBBER, 0),
        (EV_KEY, BTN_STYLUS, 0), (EV_ABS, ABS_X, 4800), (EV_ABS, ABS_Y, 3600),
        (EV_ABS, ABS_PRESSURE, 1024), (EV_ABS, ABS_MISC, 2), (EV_ABS, ABS_TILT_X, 0),
        (EV_ABS, ABS_TILT_Y, 0), (EV_SYN, SYN_REPORT, 0)]
   \<and> fst (update exact_libm fake_predictor pen_down dev_hover)
       = fst (update exact_libm fake_predictor pen_down (dev_hover\<lparr>m_prediction_target := 0\<rparr>))
   \<and> m_predictor (snd (update exact_libm fake_predictor pen_moved dev_down))
       = [(3/4, 1/2, 1/2), (1/2, 1/2, 1/4)]
   \<and> fst (update exact_libm fake_predictor pen_moved dev_down) =
       [(EV_KEY, BTN_TOUCH, 1), (EV_KEY, BTN_TOOL_PEN, 1), (EV_KEY, BTN_TOOL_RUBBER, 0),
        (EV_KEY, BTN_STYLUS, 0), (EV_ABS, ABS_X, 9600), (EV_ABS, ABS_Y, 3600),
        (EV_ABS, ABS_PRESSURE, 2048), (EV_ABS, ABS_MISC, 3), (EV_ABS, ABS_TILT_X, 0),
        (EV_ABS, ABS_TILT_Y, 0), (EV_SYN, SYN_REPORT, 0)]"
proof -
  have h1: "proximity pen_down" "rubber (m_last dev_hover) = rubber pen_down"
    "0 < m_prediction_target dev_hover" "contact pen_down"
    by (simp_all add: pen_down_def dev_hover_def pen_hover_def)
  have h2: "proximity pen_moved" "rubber (m_last dev_down) = rubber pen_moved"
    "0 < m_prediction_target dev_down" "contact pen_moved"
    by (simp_all add: pen_moved_def dev_down_def pen_down_def)
  have r: "c_round 4800 = 4800" "c_round 3600 = 3600" "c_round 1024 = 1024"
    "c_round 9600 = 9600" "c_round 2048 = 2048"
    by (simp_all add: c_round_def)
  have t: "calculate_tilt exact_libm 0 0 = (0, 0)"
    by (simp add: calculate_tilt_def)
  from prediction_fallback [OF h1, of fake_predictor exact_libm]
    prediction_fallback [OF h2, of fake_predictor exact_libm]
  show ?thesis
    by (simp add: Let_def pen_down_def pen_moved_def dev_hover_def dev_down_def pen_hover_def
        fake_predictor_def to_i32_def MAX_X_def MAX_Y_def MAX_P_def r t update_def sync_def)
qed

text \<open>
  C7 as stated asks for a positive target and \<open>contact\<close> only. With \<open>contact\<close> and
  without \<open>proximity\<close>, and with \<open>contact\<close> and \<open>proximity\<close> in the call that switches
  to the rubber, \<open>update\<close> emits the lift: the predictor is not fed, and no position or
  pressure is emitted.
\<close>

theorem prediction_not_fed_counterexample:
  "0 < m_prediction_target dev_hover \<and> contact pen_away_down
   \<and> fst (update exact_libm fake_predictor pen_away_down dev_hover) = lift @ sync
   \<and> m_predictor (snd (update exact_libm fake_predictor pen_away_down dev_hover)) = []
   \<and> 0 < m_prediction_target dev_down \<and> contact rubber_down \<and> proximity rubber_down
   \<and> fst (update exact_libm fake_predictor rubber_down dev_down) = lift @ sync
   \<and> m_predictor (snd (update exact_libm fake_predictor rubber_down dev_down)) = m_predictor dev_down
   \<and> pred_update fake_predictor (data_x rubber_down, data_y rubber_down) (pressure rubber_down)
        (m_predictor dev_down) \<noteq> m_predictor dev_down
   \<and> lift @ sync = [(EV_KEY, BTN_TOUCH, 0), (EV_KEY, BTN_TOOL_PEN, 0),
        (EV_KEY, BTN_TOOL_RUBBER, 0), (EV_KEY, BTN_STYLUS, 0), (EV_SYN, SYN_REPORT, 0)]"
  by (simp add: update_def Let_def pen_away_down_def rubber_down_def dev_hover_def dev_down_def
      pen_hover_def pen_down_def fake_predictor_def lift_def sync_def)

section \<open>The stylus device: the enabled flag\<close>

text \<open>
  C10, as the code has it. \<open>update\<close> does not read \<open>m_enabled\<close>: on a state with the
  flag set and on the same state with the flag cleared it emits the same events and gives
  the same \<open>m_active\<close>, \<open>m_last\<close> and predictor, and it leaves the flag as it is. After
  \<open>disable\<close> a call of \<open>update\<close> emits what it emits without the \<open>disable\<close>, and the
  device is still disabled after it; in particular, with \<open>proximity\<close> and the \<open>rubber\<close>
  of the sample before, it is active again and emits the full report.
\<close>

theorem update_ignores_enabled:
  "fst (update M P d (s\<lparr>m_enabled := True\<rparr>)) = fst (update M P d (s\<lparr>m_enabled := False\<rparr>))
   \<and> active (snd (update M P d (s\<lparr>m_enabled := True\<rparr>)))
       = active (snd (update M P d (s\<lparr>m_enabled := False\<rparr>)))
   \<and> m_last (snd (update M P d (s\<lparr>m_enabled := True\<rparr>)))
       = m_last (snd (update M P d (s\<lparr>m_enabled := False\<rparr>)))
   \<and> m_predictor (snd (update M P d (s\<lparr>m_enabled := True\<rparr>)))
       = m_predictor (snd (update M P d (s\<lparr>m_enabled := False\<rparr>)))
   \<and> enabled (snd (update M P d s)) = enabled s
   \<and> fst (update M P d (snd (disable s))) = fst (update M P d s)
   \<and> \<not> enabled (snd (update M P d (snd (disable s))))
   \<and> (proximity d \<and> rubber (m_last s) = rubber d \<longrightarrow>
        active (snd (update M P d (snd (disable s))))
        \<and> (\<exists>x y p. fst (update M P d (snd (disable s))) =
              [(EV_KEY, BTN_TOUCH, if contact d then 1 else 0),
               (EV_KEY, BTN_TOOL_PEN, if \<not> rubber d then 1 else 0),
               (EV_KEY, BTN_TOOL_RUBBER, if rubber d then 1 else 0),
               (EV_KEY, BTN_STYLUS, if button d then 1 else 0),
               (EV_ABS, ABS_X, x), (EV_ABS, ABS_Y, y), (EV_ABS, ABS_PRESSURE, p),
               (EV_ABS, ABS_MISC, timestamp d),
               (EV_ABS, ABS_TILT_X, fst (calculate_tilt M (altitude d) (azimuth d))),
               (EV_ABS, ABS_TILT_Y, snd (calculate_tilt M (altitude d) (azimuth d))),
               (EV_SYN, SYN_REPORT, 0)]))"
proof -
  have d: "update M P d (snd (disable s))
         = (fst (update M P d s), (snd (update M P d s))\<lparr>m_enabled := False\<rparr>)"
    by (simp add: disable_def update_def Let_def split: prod.splits)
  have full: "proximity d \<and> rubber (m_last s) = rubber d \<Longrightarrow>
      \<exists>x y p. fst (update M P d s) =
              [(EV_KEY, BTN_TOUCH, if contact d then 1 else 0),
               (EV_KEY, BTN_TOOL_PEN, if \<not> rubber d then 1 else 0),
               (EV_KEY, BTN_TOOL_RUBBER, if rubber d then 1 else 0),
               (EV_KEY, BTN_STYLUS, if button d then 1 else 0),
               (EV_ABS, ABS_X, x), (EV_ABS, ABS_Y, y), (EV_ABS, ABS_PRESSURE, p),
               (EV_ABS, ABS_MISC, timestamp d),
               (EV_ABS, ABS_TILT_X, fst (calculate_tilt M (altitude d) (azimuth d))),
               (EV_ABS, ABS_TILT_Y, snd (calculate_tilt M (altitude d) (azimuth d))),
               (EV_SYN, SYN_REPORT, 0)]"
    by (simp add: update_def Let_def sync_def split: prod.splits)
  show ?thesis
    using full
    by (simp add: update_enabled_irrelevant d enabled_def active_def active_update)
qed

theorem update_ignores_enabled_witness:
  "\<not> enabled (snd (disable dev_hover))
   \<and> proximity pen_down \<and> rubber (m_last dev_hover) = rubber pen_down
   \<and> active (snd (update exact_libm fake_predictor pen_down (snd (disable dev_hover))))
   \<and> \<not> enabled (snd (update exact_libm fake_predictor pen_down (snd (disable dev_hover))))
   \<and> (\<exists>x y p. fst (update exact_libm fake_predictor pen_down (snd (disable dev_hover))) =
         [(EV_KEY, BTN_TOUCH, 1), (EV_KEY, BTN_TOOL_PEN, 1), (EV_KEY, BTN_TOOL_RUBBER, 0),
          (EV_KEY, BTN_STYLUS, 0), (EV_ABS, ABS_X, x), (EV_ABS, ABS_Y, y),
          (EV_ABS, ABS_PRESSURE, p), (EV_ABS, ABS_MISC, 2), (EV_ABS, ABS_TILT_X, 0),
          (EV_ABS, ABS_TILT_Y, 0), (EV_SYN, SYN_REPORT, 0)])"
proof -
  have t: "calculate_tilt exact_libm 0 0 = (0, 0)"
    by (simp add: calculate_tilt_def)
  from update_ignores_enabled [of exact_libm fake_predictor pen_down dev_hover]
  show ?thesis
    by (simp add: pen_down_def dev_hover_def pen_hover_def disable_def enabled_def active_def t
        update_def sync_def Let_def fake_predictor_def)
qed

text \<open>
  C10 as stated has every call with \<open>proximity\<close> after \<open>disable\<close> emit the full report.
  The call that switches to the rubber emits the lift, with or without \<open>disable\<close>.
\<close>

theorem update_after_disable_flip_counterexample:
  "proximity rubber_down
   \<and> \<not> enabled (snd (disable dev_down))
   \<and> fst (update exact_libm fake_predictor rubber_down (snd (disable dev_down)))
       = [(EV_KEY, BTN_TOUCH, 0), (EV_KEY, BTN_TOOL_PEN, 0), (EV_KEY, BTN_TOOL_RUBBER, 0),
          (EV_KEY, BTN_STYLUS, 0), (EV_SYN, SYN_REPORT, 0)]
   \<and> \<not> active (snd (update exact_libm fake_predictor rubber_down (snd (disable dev_down))))"
  by (simp add: update_def disable_def Let_def rubber_down_def dev_down_def pen_down_def
      lift_def sync_def enabled_def active_def)

end
